theory Spec2Isabelle
  imports Main
begin

section \<open>JavaScript values\<close>

text \<open>
  The variables of a call are an arbitrary JavaScript value: a tree of objects, arrays
  and scalars that may hold \<^verbatim>\<open>File\<close> objects. A \<^verbatim>\<open>File\<close> is opaque to the
  program (it is only tested with \<^verbatim>\<open>instanceof\<close>), so it is a name standing for the blob.
  Numbers are modelled by the integers: the program only tests them for truthiness and
  for equality. An object is the list of its own enumerable properties in the order
  \<^verbatim>\<open>Object.keys\<close> lists them; the keys of a JavaScript object are pairwise different,
  so reading or writing \<^verbatim>\<open>obj[k]\<close> while iterating over \<^verbatim>\<open>Object.keys(obj)\<close> is
  reading or writing the entry at hand.
\<close>

datatype js_file = File string

datatype jsval =
    JUndefined
  | JNull
  | JBool bool
  | JNum int
  | JStr string
  | JFile js_file
  | JArr "jsval list"
  | JObj "(string \<times> jsval) list"

subsection \<open>Numbers to strings, \<^verbatim>\<open>Array.prototype.join\<close>\<close>

definition digit_char :: "nat \<Rightarrow> char" where
  "digit_char d = ''0123456789'' ! (d mod 10)"

fun string_of_nat :: "nat \<Rightarrow> string" where
  "string_of_nat n =
     (if n < 10 then [digit_char n]
      else string_of_nat (n div 10) @ [digit_char (n mod 10)])"

declare string_of_nat.simps [simp del]

fun join :: "string \<Rightarrow> string list \<Rightarrow> string" where
  "join sep [] = []"
| "join sep [x] = x"
| "join sep (x # y # ys) = x @ sep @ join sep (y # ys)"

subsection \<open>makePath\<close>

text \<open>
  Line 159:
  \<^verbatim>\<open>const makePath = (path, key) => [path, key].filter(v => v !== '').join('.')\<close>.
  The key is a string (an object key) or a number (an array index); a number is never
  \<^verbatim>\<open>=== ''\<close>, and \<^verbatim>\<open>join\<close> writes it in decimal.
\<close>

datatype key = KStr string | KNum nat

fun key_to_string :: "key \<Rightarrow> string" where
  "key_to_string (KStr s) = s"
| "key_to_string (KNum i) = string_of_nat i"

definition makePath :: "string \<Rightarrow> key \<Rightarrow> string" where
  "makePath path k =
     join ''.'' (map key_to_string (filter (\<lambda>v. v \<noteq> KStr []) [KStr path, k]))"

section \<open>The tree walker\<close>

text \<open>
  \<^verbatim>\<open>doWalkObject\<close> (lines 131 to 153) and \<^verbatim>\<open>walkObject\<close> (lines 155 to 157).
  The callback of the source closes over mutable variables; here its state \<open>'s\<close> is
  passed in and returned. \<^verbatim>\<open>doWalkObject\<close> returns \<^verbatim>\<open>undefined\<close> (\<open>None\<close>) after
  walking an array or an object, and the callback's boolean for every other value:
  \<^verbatim>\<open>null\<close>, a \<^verbatim>\<open>File\<close>, and whatever is not an object, \<^verbatim>\<open>undefined\<close> included.
  It assigns \<^verbatim>\<open>null\<close> to the element or property whose walk returned \<^verbatim>\<open>false\<close>,
  in the array or object it was given. JavaScript passes objects by reference and the
  source copies nothing, so the model returns the value of \<^verbatim>\<open>obj\<close> after the call as
  well: it is the state of the very object that was passed in. \<open>walkElements\<close> is
  the \<^verbatim>\<open>forEach\<close> over an array, from index \<open>i\<close> on, and \<open>walkKeys\<close> the
  \<^verbatim>\<open>forEach\<close> over \<^verbatim>\<open>Object.keys(obj)\<close>.
\<close>

type_synonym 's WalkObjectCallback = "jsval \<Rightarrow> string \<Rightarrow> 's \<Rightarrow> bool \<times> 's"

fun doWalkObject :: "jsval \<Rightarrow> 's WalkObjectCallback \<Rightarrow> string \<Rightarrow> 's \<Rightarrow> bool option \<times> jsval \<times> 's"
  and walkElements :: "jsval list \<Rightarrow> nat \<Rightarrow> 's WalkObjectCallback \<Rightarrow> string \<Rightarrow> 's \<Rightarrow> jsval list \<times> 's"
  and walkKeys :: "(string \<times> jsval) list \<Rightarrow> 's WalkObjectCallback \<Rightarrow> string \<Rightarrow> 's \<Rightarrow> (string \<times> jsval) list \<times> 's"
where
  "doWalkObject (JArr vs) fn path s =
     (case walkElements vs 0 fn path s of (vs', s') \<Rightarrow> (None, JArr vs', s'))"
| "doWalkObject (JObj kvs) fn path s =
     (case walkKeys kvs fn path s of (kvs', s') \<Rightarrow> (None, JObj kvs', s'))"
| "doWalkObject obj fn path s =
     (case fn obj path s of (r, s') \<Rightarrow> (Some r, obj, s'))"
| "walkElements [] i fn path s = ([], s)"
| "walkElements (v # vs) i fn path s =
     (case doWalkObject v fn (makePath path (KNum i)) s of
        (r, v', s1) \<Rightarrow>
          (case walkElements vs (Suc i) fn path s1 of
             (vs', s2) \<Rightarrow> ((if r = Some False then JNull else v') # vs', s2)))"
| "walkKeys [] fn path s = ([], s)"
| "walkKeys ((k, v) # kvs) fn path s =
     (case doWalkObject v fn (makePath path (KStr k)) s of
        (r, v', s1) \<Rightarrow>
          (case walkKeys kvs fn path s1 of
             (kvs', s2) \<Rightarrow> ((k, if r = Some False then JNull else v') # kvs', s2)))"

definition walkObject :: "jsval \<Rightarrow> 's WalkObjectCallback \<Rightarrow> 's \<Rightarrow> jsval \<times> 's" where
  "walkObject obj fn s = (case doWalkObject obj fn [] s of (r, obj', s') \<Rightarrow> (obj', s'))"

section \<open>The error model\<close>

text \<open>
  \<^verbatim>\<open>GraphQlErrorObj\<close> and \<^verbatim>\<open>GraphQlResponse\<close>: an optional field is an \<open>option\<close>,
  \<open>None\<close> being \<^verbatim>\<open>undefined\<close>. The type of \<^verbatim>\<open>data\<close> is a parameter of the source;
  the program tests it for \<^verbatim>\<open>undefined\<close>, so it is optional here too.
\<close>

record extensions =
  code :: int

record GraphQlErrorObj =
  message :: string
  extensions :: "extensions option"
  error_path :: "string list option"

record 'a GraphQlResponse =
  data :: "'a option"
  errors :: "GraphQlErrorObj list option"

text \<open>
  A value of type \<^verbatim>\<open>Error | GraphQlError\<close>. An \<^verbatim>\<open>Error\<close> has a name and a message;
  the class \<^verbatim>\<open>GraphQlError\<close> adds the fields \<^verbatim>\<open>codes\<close> and \<^verbatim>\<open>errors\<close>, which are
  \<^verbatim>\<open>undefined\<close> (\<open>None\<close>) on any other error. The stack trace the constructor
  captures is not modelled: nothing in the program reads it.
\<close>

record js_error =
  err_name :: string
  err_message :: string
  err_codes :: "int list option"
  err_errors :: "GraphQlErrorObj list option"

definition GraphQlErrorName :: string where
  "GraphQlErrorName = ''GraphQlError''"

definition new_Error :: "string \<Rightarrow> js_error" where
  "new_Error msg =
     \<lparr>err_name = ''Error'', err_message = msg, err_codes = None, err_errors = None\<rparr>"

definition new_GraphQlError :: "string \<Rightarrow> js_error" where
  "new_GraphQlError msg =
     \<lparr>err_name = GraphQlErrorName, err_message = msg,
      err_codes = Some [], err_errors = Some []\<rparr>"

text \<open>\<^verbatim>\<open>err.codes.push(c)\<close>, on an error that has the field.\<close>

definition codes_push :: "int \<Rightarrow> js_error \<Rightarrow> js_error" where
  "codes_push c err = err\<lparr>err_codes := map_option (\<lambda>cs. cs @ [c]) (err_codes err)\<rparr>"

text \<open>
  The body of the \<^verbatim>\<open>forEach\<close> in \<^verbatim>\<open>fromResponse\<close>:
  \<^verbatim>\<open>if (e.extensions && e.extensions.code) err.codes.push(e.extensions.code)\<close>.
  An object is truthy, a number is truthy unless it is zero.
\<close>

definition collect_code :: "GraphQlErrorObj \<Rightarrow> js_error \<Rightarrow> js_error" where
  "collect_code e err =
     (case extensions e of
        None \<Rightarrow> err
      | Some x \<Rightarrow> if code x \<noteq> 0 then codes_push (code x) err else err)"

definition fromResponse :: "'a GraphQlResponse \<Rightarrow> js_error" where
  "fromResponse d =
     (let err = new_GraphQlError ''unknown error'' in
      case errors d of
        None \<Rightarrow> err
      | Some es \<Rightarrow>
          (let err = err\<lparr>err_errors := Some es\<rparr> in
           case es of
             [] \<Rightarrow> err
           | e0 # _ \<Rightarrow> fold collect_code es (err\<lparr>err_message := message e0\<rparr>)))"

definition fromError :: "js_error \<Rightarrow> js_error option" where
  "fromError err = (if err_name err = GraphQlErrorName then Some err else None)"

text \<open>
  \<^verbatim>\<open>hasErrorCode\<close> reads \<^verbatim>\<open>gqlErr.codes.includes(code)\<close>: on an error named
  \<^verbatim>\<open>GraphQlError\<close> that has no \<^verbatim>\<open>codes\<close> field this throws a \<^verbatim>\<open>TypeError\<close>, which
  is the result \<open>None\<close>.
\<close>

definition hasErrorCode :: "js_error \<Rightarrow> int \<Rightarrow> bool option" where
  "hasErrorCode err c =
     (case fromError err of
        None \<Rightarrow> Some False
      | Some gqlErr \<Rightarrow>
          (case err_codes gqlErr of
             None \<Rightarrow> None
           | Some cs \<Rightarrow> Some (c \<in> set cs)))"

section \<open>JSON\<close>

text \<open>
  \<^verbatim>\<open>JSON.stringify\<close> and \<^verbatim>\<open>JSON.parse\<close> belong to the JavaScript runtime. A JSON
  text is represented by the document it denotes, that is up to white space and the
  spelling of its literals. \<^verbatim>\<open>JSON.stringify\<close> follows ECMA-262 on the values of
  \<open>jsval\<close>: it returns \<^verbatim>\<open>undefined\<close> (\<open>None\<close>) for \<^verbatim>\<open>undefined\<close>, leaves out an
  object's property whose value is \<^verbatim>\<open>undefined\<close>, writes \<^verbatim>\<open>null\<close> for an
  \<^verbatim>\<open>undefined\<close> array element, and writes \<^verbatim>\<open>{}\<close> for a \<^verbatim>\<open>File\<close>, which has no
  enumerable property of its own.
\<close>

datatype json =
    JsonNull
  | JsonBool bool
  | JsonNum int
  | JsonStr string
  | JsonArr "json list"
  | JsonObj "(string \<times> json) list"

fun JSON_stringify :: "jsval \<Rightarrow> json option"
  and stringify_elements :: "jsval list \<Rightarrow> json list"
  and stringify_properties :: "(string \<times> jsval) list \<Rightarrow> (string \<times> json) list"
where
  "JSON_stringify JUndefined = None"
| "JSON_stringify JNull = Some JsonNull"
| "JSON_stringify (JBool b) = Some (JsonBool b)"
| "JSON_stringify (JNum n) = Some (JsonNum n)"
| "JSON_stringify (JStr s) = Some (JsonStr s)"
| "JSON_stringify (JFile f) = Some (JsonObj [])"
| "JSON_stringify (JArr vs) = Some (JsonArr (stringify_elements vs))"
| "JSON_stringify (JObj kvs) = Some (JsonObj (stringify_properties kvs))"
| "stringify_elements [] = []"
| "stringify_elements (v # vs) =
     (case JSON_stringify v of None \<Rightarrow> JsonNull | Some t \<Rightarrow> t) # stringify_elements vs"
| "stringify_properties [] = []"
| "stringify_properties ((k, v) # kvs) =
     (case JSON_stringify v of
        None \<Rightarrow> stringify_properties kvs
      | Some t \<Rightarrow> (k, t) # stringify_properties kvs)"

fun JSON_parse :: "json \<Rightarrow> jsval"
  and parse_elements :: "json list \<Rightarrow> jsval list"
  and parse_properties :: "(string \<times> json) list \<Rightarrow> (string \<times> jsval) list"
where
  "JSON_parse JsonNull = JNull"
| "JSON_parse (JsonBool b) = JBool b"
| "JSON_parse (JsonNum n) = JNum n"
| "JSON_parse (JsonStr s) = JStr s"
| "JSON_parse (JsonArr ts) = JArr (parse_elements ts)"
| "JSON_parse (JsonObj kts) = JObj (parse_properties kts)"
| "parse_elements [] = []"
| "parse_elements (t # ts) = JSON_parse t # parse_elements ts"
| "parse_properties [] = []"
| "parse_properties ((k, t) # kts) = (k, JSON_parse t) # parse_properties kts"

section \<open>The client\<close>

subsection \<open>Plain objects and forms\<close>

text \<open>
  The assignment \<^verbatim>\<open>o[k] = v\<close> on a plain object, and \<^verbatim>\<open>form.set(k, v)\<close> on a
  \<^verbatim>\<open>FormData\<close>: the value of an existing key is replaced where it stands, a new key
  goes last. (The keys the client adds to its objects are the decimal numbers in
  increasing order, or not numbers at all, so \<^verbatim>\<open>Object.keys\<close> lists them as they
  were added.)
\<close>

fun obj_set :: "string \<Rightarrow> 'v \<Rightarrow> (string \<times> 'v) list \<Rightarrow> (string \<times> 'v) list" where
  "obj_set k v [] = [(k, v)]"
| "obj_set k v ((k', v') # kvs) =
     (if k' = k then (k, v) # kvs else (k', v') # obj_set k v kvs)"

text \<open>
  What \<^verbatim>\<open>JSON.stringify\<close> returned is a string or \<^verbatim>\<open>undefined\<close>; a form part is
  such a string or a file.
\<close>

datatype part = PartString "json option" | PartFile js_file

datatype body = BodyString "json option" | BodyForm "(string \<times> part) list"

subsection \<open>The file pass\<close>

text \<open>
  The two objects the callback of lines 75 to 83 closes over, \<^verbatim>\<open>map\<close> and
  \<^verbatim>\<open>files\<close>, and the callback: a \<^verbatim>\<open>File\<close> is entered under the next number, with
  its path, and the callback returns \<^verbatim>\<open>false\<close>; every other value is kept.
\<close>

record file_scan =
  map' :: "(string \<times> string list) list"
  files :: "(string \<times> js_file) list"

definition file_visitor :: "file_scan WalkObjectCallback" where
  "file_visitor v path st =
     (case v of
        JFile f \<Rightarrow>
          (let i = length (map' st) in
           (False,
            st\<lparr>map' := obj_set (string_of_nat i) [''variables.'' @ path] (map' st),
               files := obj_set (string_of_nat i) f (files st)\<rparr>))
      | _ \<Rightarrow> (True, st))"

subsection \<open>Encoding the request\<close>

datatype query = QString string | QArray "string list"

definition join_query :: "query \<Rightarrow> string" where
  "join_query q = (case q of QArray qs \<Rightarrow> join [CHR 0x0A] qs | QString s \<Rightarrow> s)"

text \<open>The object \<^verbatim>\<open>map\<close> as the value \<^verbatim>\<open>JSON.stringify\<close> receives.\<close>

definition map_value :: "(string \<times> string list) list \<Rightarrow> jsval" where
  "map_value m = JObj (map (\<lambda>(k, ps). (k, JArr (map JStr ps))) m)"

definition operations_value :: "string \<Rightarrow> jsval \<Rightarrow> jsval" where
  "operations_value q variables = JObj [(''query'', JStr q), (''variables'', variables)]"

text \<open>
  Lines 69 to 107 of the client: the request handed to the transport, and the state of
  the caller's \<^verbatim>\<open>variables\<close> object once the file pass has run over it.
  \<^verbatim>\<open>variables\<close> is \<open>JUndefined\<close> when the caller passes none.
\<close>

record encoded =
  req_body :: body
  req_headers :: "(string \<times> string) list"
  variables_after :: jsval

definition encode_request :: "query \<Rightarrow> jsval \<Rightarrow> encoded" where
  "encode_request query variables =
     (let q = join_query query in
      case walkObject variables file_visitor \<lparr>map' = [], files = []\<rparr> of
        (variables', st) \<Rightarrow>
          (let headers = [(''Accept'', ''application/json'')] in
           if length (map' st) \<noteq> 0 then
             (let form = obj_set ''operations''
                    (PartString (JSON_stringify (operations_value q variables'))) [];
                  form = obj_set ''map''
                    (PartString (JSON_stringify (map_value (map' st)))) form;
                  form = fold (\<lambda>(k, f). obj_set k (PartFile f)) (files st) form
              in \<lparr>req_body = BodyForm form, req_headers = headers,
                  variables_after = variables'\<rparr>)
           else
             \<lparr>req_body = BodyString (JSON_stringify (operations_value q variables')),
              req_headers = obj_set ''Content-Type'' ''application/json'' headers,
              variables_after = variables'\<rparr>))"

subsection \<open>The call\<close>

text \<open>
  The transport is given from outside. Awaiting the factory yields an error (the
  promise is rejected) or a client; its \<^verbatim>\<open>post\<close> takes the path, the body and the
  headers, and yields an error or the decoded envelope. A rejected promise is \<open>Inl\<close>.
\<close>

type_synonym 'a AxiosInstance =
  "string \<Rightarrow> body \<Rightarrow> (string \<times> string) list \<Rightarrow> js_error + 'a GraphQlResponse"

text \<open>The callback of \<^verbatim>\<open>.then\<close>, lines 116 to 124.\<close>

definition on_response :: "'a GraphQlResponse \<Rightarrow> js_error + 'a" where
  "on_response d =
     (case errors d of
        Some es \<Rightarrow> Inl (fromResponse d)
      | None \<Rightarrow>
          (case data d of
             None \<Rightarrow> Inl (new_Error ''no data returned'')
           | Some r \<Rightarrow> Inr r))"

text \<open>
  The function \<^verbatim>\<open>graphqlClient(clientFactory)\<close> returns, applied to a query and the
  variables: the outcome of the promise, and the caller's \<^verbatim>\<open>variables\<close> object as the
  call leaves it.
\<close>

definition graphqlClient ::
  "(unit \<Rightarrow> js_error + 'a AxiosInstance) \<Rightarrow> query \<Rightarrow> jsval \<Rightarrow> (js_error + 'a) \<times> jsval" where
  "graphqlClient clientFactory query variables =
     (let enc = encode_request query variables in
      (case clientFactory () of
         Inl e \<Rightarrow> Inl e
       | Inr httpClient \<Rightarrow>
           (case httpClient [] (req_body enc) (req_headers enc) of
              Inl e \<Rightarrow> Inl e
            | Inr d \<Rightarrow> on_response d),
       variables_after enc))"

section \<open>The specification's notions\<close>

text \<open>
  The definitions of this section do not come from the source. They say what the
  specification's words mean on the values above, so that the program can be compared
  with them.
\<close>

subsection \<open>File leaves, their paths, and the tree with its files replaced by null\<close>

text \<open>
  The tree that is the input with \<^verbatim>\<open>null\<close> at every file leaf and is otherwise
  identical to it.
\<close>

fun null_files :: "jsval \<Rightarrow> jsval"
  and null_files_elements :: "jsval list \<Rightarrow> jsval list"
  and null_files_properties :: "(string \<times> jsval) list \<Rightarrow> (string \<times> jsval) list"
where
  "null_files (JFile f) = JNull"
| "null_files (JArr vs) = JArr (null_files_elements vs)"
| "null_files (JObj kvs) = JObj (null_files_properties kvs)"
| "null_files v = v"
| "null_files_elements [] = []"
| "null_files_elements (v # vs) = null_files v # null_files_elements vs"
| "null_files_properties [] = []"
| "null_files_properties ((k, v) # kvs) = (k, null_files v) # null_files_properties kvs"

text \<open>The number of file leaves of a tree.\<close>

fun count_files :: "jsval \<Rightarrow> nat"
  and count_files_elements :: "jsval list \<Rightarrow> nat"
  and count_files_properties :: "(string \<times> jsval) list \<Rightarrow> nat"
where
  "count_files (JFile f) = 1"
| "count_files (JArr vs) = count_files_elements vs"
| "count_files (JObj kvs) = count_files_properties kvs"
| "count_files v = 0"
| "count_files_elements [] = 0"
| "count_files_elements (v # vs) = count_files v + count_files_elements vs"
| "count_files_properties [] = 0"
| "count_files_properties ((k, v) # kvs) = count_files v + count_files_properties kvs"

text \<open>
  The specification's path construction: the child's path is the parent's path, a dot
  and the key or index; the separator is dropped when the parent's path is empty.
\<close>

definition spec_child_path :: "string \<Rightarrow> string \<Rightarrow> string" where
  "spec_child_path parent k = (if parent = [] then k else parent @ ''.'' @ k)"

text \<open>
  The file occurrences of a tree in the order of the walk (array elements by index,
  object entries in key order, depth first), each with its dotted path below the path
  \<open>p\<close> of the tree itself.
\<close>

fun file_occurrences :: "jsval \<Rightarrow> string \<Rightarrow> (string \<times> js_file) list"
  and file_occurrences_elements :: "jsval list \<Rightarrow> nat \<Rightarrow> string \<Rightarrow> (string \<times> js_file) list"
  and file_occurrences_properties :: "(string \<times> jsval) list \<Rightarrow> string \<Rightarrow> (string \<times> js_file) list"
where
  "file_occurrences (JFile f) p = [(p, f)]"
| "file_occurrences (JArr vs) p = file_occurrences_elements vs 0 p"
| "file_occurrences (JObj kvs) p = file_occurrences_properties kvs p"
| "file_occurrences v p = []"
| "file_occurrences_elements [] i p = []"
| "file_occurrences_elements (v # vs) i p =
     file_occurrences v (spec_child_path p (string_of_nat i))
       @ file_occurrences_elements vs (Suc i) p"
| "file_occurrences_properties [] p = []"
| "file_occurrences_properties ((k, v) # kvs) p =
     file_occurrences v (spec_child_path p k) @ file_occurrences_properties kvs p"

text \<open>
  The entries \<^verbatim>\<open>"0"\<close>, \<^verbatim>\<open>"1"\<close>, ... of an object whose values are the elements of a
  list, in the order of the list.
\<close>

definition numbered :: "'v list \<Rightarrow> (string \<times> 'v) list" where
  "numbered xs = map (\<lambda>(i, x). (string_of_nat i, x)) (enumerate 0 xs)"

text \<open>
  The file map the specification asks for: entry \<open>i\<close> holds the one-element array of
  the dotted path of the \<open>i\<close>-th file occurrence, prefixed with \<^verbatim>\<open>variables.\<close>.
\<close>

definition spec_file_map :: "(string \<times> js_file) list \<Rightarrow> (string \<times> string list) list" where
  "spec_file_map occs = numbered (map (\<lambda>(p, f). [''variables.'' @ p]) occs)"

text \<open>The form parts that carry the files: part \<open>i\<close> is the \<open>i\<close>-th file.\<close>

definition spec_file_parts :: "(string \<times> js_file) list \<Rightarrow> (string \<times> part) list" where
  "spec_file_parts occs = numbered (map (\<lambda>(p, f). PartFile f) occs)"

subsection \<open>Well-formed inputs\<close>

text \<open>The root is an array or an object.\<close>

fun is_container :: "jsval \<Rightarrow> bool" where
  "is_container (JArr vs) = True"
| "is_container (JObj kvs) = True"
| "is_container v = False"

text \<open>No object of the tree has the empty string among its keys.\<close>

fun nonempty_keys :: "jsval \<Rightarrow> bool"
  and nonempty_keys_elements :: "jsval list \<Rightarrow> bool"
  and nonempty_keys_properties :: "(string \<times> jsval) list \<Rightarrow> bool"
where
  "nonempty_keys (JArr vs) = nonempty_keys_elements vs"
| "nonempty_keys (JObj kvs) = nonempty_keys_properties kvs"
| "nonempty_keys v = True"
| "nonempty_keys_elements [] = True"
| "nonempty_keys_elements (v # vs) = (nonempty_keys v \<and> nonempty_keys_elements vs)"
| "nonempty_keys_properties [] = True"
| "nonempty_keys_properties ((k, v) # kvs) =
     (k \<noteq> [] \<and> nonempty_keys v \<and> nonempty_keys_properties kvs)"

text \<open>
  A variables tree of the specification's data model: objects, arrays and scalars of
  JSON, and files; \<^verbatim>\<open>undefined\<close> occurs nowhere in it.
\<close>

fun variables_tree :: "jsval \<Rightarrow> bool"
  and variables_tree_elements :: "jsval list \<Rightarrow> bool"
  and variables_tree_properties :: "(string \<times> jsval) list \<Rightarrow> bool"
where
  "variables_tree JUndefined = False"
| "variables_tree (JArr vs) = variables_tree_elements vs"
| "variables_tree (JObj kvs) = variables_tree_properties kvs"
| "variables_tree v = True"
| "variables_tree_elements [] = True"
| "variables_tree_elements (v # vs) = (variables_tree v \<and> variables_tree_elements vs)"
| "variables_tree_properties [] = True"
| "variables_tree_properties ((k, v) # kvs) =
     (variables_tree v \<and> variables_tree_properties kvs)"

subsection \<open>The codes of an errors array\<close>

text \<open>
  The truthy \<^verbatim>\<open>extensions.code\<close> values of the errors, in the order of the errors,
  duplicates kept.
\<close>

fun truthy_codes :: "GraphQlErrorObj list \<Rightarrow> int list" where
  "truthy_codes [] = []"
| "truthy_codes (e # es) =
     (case extensions e of
        None \<Rightarrow> truthy_codes es
      | Some x \<Rightarrow> if code x \<noteq> 0 then code x # truthy_codes es else truthy_codes es)"

section \<open>What the file pass computes\<close>

text \<open>
  The files the walk meets, each with the path \<^verbatim>\<open>doWalkObject\<close> hands to the
  callback (built with \<open>makePath\<close>), in the order of the calls.
\<close>

fun walked_files :: "jsval \<Rightarrow> string \<Rightarrow> (string \<times> js_file) list"
  and walked_files_elements :: "jsval list \<Rightarrow> nat \<Rightarrow> string \<Rightarrow> (string \<times> js_file) list"
  and walked_files_keys :: "(string \<times> jsval) list \<Rightarrow> string \<Rightarrow> (string \<times> js_file) list"
where
  "walked_files (JFile f) p = [(p, f)]"
| "walked_files (JArr vs) p = walked_files_elements vs 0 p"
| "walked_files (JObj kvs) p = walked_files_keys kvs p"
| "walked_files v p = []"
| "walked_files_elements [] i p = []"
| "walked_files_elements (v # vs) i p =
     walked_files v (makePath p (KNum i)) @ walked_files_elements vs (Suc i) p"
| "walked_files_keys [] p = []"
| "walked_files_keys ((k, v) # kvs) p =
     walked_files v (makePath p (KStr k)) @ walked_files_keys kvs p"

text \<open>The state of the callback after it has met the given files.\<close>

definition scan_of :: "(string \<times> js_file) list \<Rightarrow> file_scan" where
  "scan_of occs =
     \<lparr>map' = numbered (map (\<lambda>(p, f). [''variables.'' @ p]) occs),
      files = numbered (map snd occs)\<rparr>"

text \<open>What \<^verbatim>\<open>doWalkObject\<close> returns for a value under the file callback.\<close>

definition walk_result :: "jsval \<Rightarrow> bool option" where
  "walk_result v =
     (case v of
        JArr vs \<Rightarrow> None
      | JObj kvs \<Rightarrow> None
      | JFile f \<Rightarrow> Some False
      | _ \<Rightarrow> Some True)"

text \<open>
  The value the walk leaves at the root: files below the root are replaced by
  \<^verbatim>\<open>null\<close>; a root that is itself a file has no parent to write into.
\<close>

definition walked_root :: "jsval \<Rightarrow> jsval" where
  "walked_root v = (case v of JFile f \<Rightarrow> JFile f | _ \<Rightarrow> null_files v)"

section \<open>Callbacks and transports for the examples\<close>

text \<open>A callback that keeps every value and records its calls.\<close>

definition logging_visitor :: "(jsval \<times> string) list WalkObjectCallback" where
  "logging_visitor v p s = (True, s @ [(v, p)])"

text \<open>A factory whose client answers every request with the envelope \<open>d\<close>.\<close>

definition transport_returning ::
  "'a GraphQlResponse \<Rightarrow> unit \<Rightarrow> js_error + 'a AxiosInstance" where
  "transport_returning d = (\<lambda>u. Inr (\<lambda>p b h. Inr d))"

section \<open>Decimal numbers\<close>

lemma less_ten_cases:
  "(d::nat) < 10 \<Longrightarrow>
   d = 0 \<or> d = 1 \<or> d = 2 \<or> d = 3 \<or> d = 4 \<or> d = 5 \<or> d = 6 \<or> d = 7 \<or> d = 8 \<or> d = 9"
  by arith

lemma digit_char_code: "d < 10 \<Longrightarrow> (of_char (digit_char d) :: nat) = 48 + d"
  by (drule less_ten_cases, elim disjE) (simp_all add: digit_char_def)

lemma digit_char_inj: "a < 10 \<Longrightarrow> b < 10 \<Longrightarrow> digit_char a = digit_char b \<Longrightarrow> a = b"
proof -
  assume a: "a < 10" and b: "b < 10" and eq: "digit_char a = digit_char b"
  have "(of_char (digit_char a) :: nat) = of_char (digit_char b)" using eq by simp
  then show "a = b" using digit_char_code [OF a] digit_char_code [OF b] by simp
qed

lemma string_of_nat_small: "n < 10 \<Longrightarrow> string_of_nat n = [digit_char n]"
  by (subst string_of_nat.simps) simp

lemma string_of_nat_large:
  "\<not> n < 10 \<Longrightarrow> string_of_nat n = string_of_nat (n div 10) @ [digit_char (n mod 10)]"
  by (subst string_of_nat.simps) simp

lemma string_of_nat_nonempty: "string_of_nat n \<noteq> []"
  by (subst string_of_nat.simps) simp

lemma string_of_nat_inj: "string_of_nat m = string_of_nat n \<Longrightarrow> m = n"
proof (induction m arbitrary: n rule: string_of_nat.induct)
  case (1 m)
  show ?case
  proof (cases "m < 10")
    case m: True
    show ?thesis
    proof (cases "n < 10")
      case True
      with m "1.prems" show ?thesis
        by (simp add: string_of_nat_small digit_char_inj)
    next
      case False
      with m "1.prems" show ?thesis
        using string_of_nat_nonempty [of "n div 10"]
        by (simp add: string_of_nat_small string_of_nat_large)
    qed
  next
    case m: False
    show ?thesis
    proof (cases "n < 10")
      case True
      with m "1.prems" show ?thesis
        using string_of_nat_nonempty [of "m div 10"]
        by (simp add: string_of_nat_small string_of_nat_large)
    next
      case False
      with m "1.prems" have eq: "string_of_nat (m div 10) = string_of_nat (n div 10)"
        and d: "digit_char (m mod 10) = digit_char (n mod 10)"
        by (simp_all add: string_of_nat_large)
      have "m div 10 = n div 10" using "1.IH" [OF m eq] .
      moreover have "m mod 10 = n mod 10" using d by (simp add: digit_char_inj)
      ultimately show ?thesis by (metis div_mult_mod_eq)
    qed
  qed
qed

lemma digit_char_digit: "digit_char d \<in> set ''0123456789''"
proof -
  have "d mod 10 < 10" by simp
  then show ?thesis
    unfolding digit_char_def
    by (drule_tac less_ten_cases, elim disjE) simp_all
qed

lemma string_of_nat_digits: "set (string_of_nat n) \<subseteq> set ''0123456789''"
proof (induction n rule: string_of_nat.induct)
  case (1 n)
  show ?case
  proof (cases "n < 10")
    case True
    then show ?thesis using digit_char_digit [of n] by (simp add: string_of_nat_small)
  next
    case False
    then show ?thesis
      using "1.IH" digit_char_digit [of "n mod 10"] by (simp add: string_of_nat_large)
  qed
qed

section \<open>Numbered entries\<close>

lemma obj_set_fresh: "k \<notin> fst ` set m \<Longrightarrow> obj_set k v m = m @ [(k, v)]"
  by (induction m) auto

lemma numbered_Nil [simp]: "numbered [] = []"
  by (simp add: numbered_def)

lemma numbered_eq_Nil [simp]: "(numbered xs = []) = (xs = [])"
  by (cases xs) (simp_all add: numbered_def)

lemma length_numbered [simp]: "length (numbered xs) = length xs"
  by (simp add: numbered_def)

lemma numbered_snoc: "numbered (xs @ [x]) = numbered xs @ [(string_of_nat (length xs), x)]"
  by (simp add: numbered_def enumerate_append_eq)

lemma numbered_keys: "map fst (numbered xs) = map string_of_nat [0..<length xs]"
proof -
  have "map fst (numbered xs) = map string_of_nat (map fst (enumerate 0 xs))"
    unfolding numbered_def by (induction xs rule: rev_induct) (simp_all add: enumerate_append_eq)
  then show ?thesis by simp
qed

lemma numbered_fresh: "string_of_nat (length xs) \<notin> fst ` set (numbered xs)"
proof
  assume "string_of_nat (length xs) \<in> fst ` set (numbered xs)"
  then have "string_of_nat (length xs) \<in> set (map fst (numbered xs))" by simp
  then have "string_of_nat (length xs) \<in> string_of_nat ` {0..<length xs}"
    by (simp add: numbered_keys)
  then obtain i where "i < length xs" "string_of_nat (length xs) = string_of_nat i" by auto
  then show False using string_of_nat_inj by blast
qed

lemma obj_set_numbered:
  "obj_set (string_of_nat (length xs)) x (numbered xs) = numbered (xs @ [x])"
  by (simp add: obj_set_fresh numbered_fresh numbered_snoc)

lemma distinct_numbered: "distinct (map fst (numbered xs))"
  unfolding numbered_keys
  by (simp add: distinct_map inj_on_def string_of_nat_inj)

lemma numbered_not_operations: "''operations'' \<notin> fst ` set (numbered xs)"
proof
  assume "''operations'' \<in> fst ` set (numbered xs)"
  then have "''operations'' \<in> set (map fst (numbered xs))" by simp
  then obtain i where "''operations'' = string_of_nat i" by (auto simp: numbered_keys)
  then have "set ''operations'' \<subseteq> set ''0123456789''"
    using string_of_nat_digits [of i] by simp
  then show False by simp
qed

lemma numbered_not_map: "''map'' \<notin> fst ` set (numbered xs)"
proof
  assume "''map'' \<in> fst ` set (numbered xs)"
  then have "''map'' \<in> set (map fst (numbered xs))" by simp
  then obtain i where "''map'' = string_of_nat i" by (auto simp: numbered_keys)
  then have "set ''map'' \<subseteq> set ''0123456789''"
    using string_of_nat_digits [of i] by simp
  then show False by simp
qed

lemma map_numbered: "map (\<lambda>(k, x). (k, g x)) (numbered xs) = numbered (map g xs)"
  unfolding numbered_def
  by (induction xs rule: rev_induct) (simp_all add: enumerate_append_eq)

section \<open>The walk under the file callback\<close>

lemma scan_of_Nil: "scan_of [] = \<lparr>map' = [], files = []\<rparr>"
  by (simp add: scan_of_def numbered_def)

lemma file_visitor_file:
  "file_visitor (JFile f) p (scan_of occs) = (False, scan_of (occs @ [(p, f)]))"
  using obj_set_numbered [of "map (\<lambda>(p, f). [''variables.'' @ p]) occs" "[''variables.'' @ p]"]
    obj_set_numbered [of "map snd occs" f]
  by (simp add: file_visitor_def scan_of_def Let_def)

lemma file_visitor_other:
  "\<forall>f. v \<noteq> JFile f \<Longrightarrow> file_visitor v p st = (True, st)"
  by (cases v) (simp_all add: file_visitor_def)

lemma child_after_walk:
  "(if walk_result v = Some False then JNull else walked_root v) = null_files v"
  by (cases v) (simp_all add: walk_result_def walked_root_def)

lemma doWalkObject_file_visitor:
  "doWalkObject v file_visitor p (scan_of occs) =
     (walk_result v, walked_root v, scan_of (occs @ walked_files v p))"
  "walkElements vs i file_visitor p (scan_of occs) =
     (null_files_elements vs, scan_of (occs @ walked_files_elements vs i p))"
  "walkKeys kvs file_visitor p (scan_of occs) =
     (null_files_properties kvs, scan_of (occs @ walked_files_keys kvs p))"
proof (induction v p and vs i p and kvs p arbitrary: occs and occs and occs
    rule: walked_files_walked_files_elements_walked_files_keys.induct)
  case (1 f p)
  show ?case by (simp add: file_visitor_file walk_result_def walked_root_def)
next
  case (2 vs p)
  show ?case by (simp add: "2.IH" walk_result_def walked_root_def)
next
  case (3 kvs p)
  show ?case by (simp add: "3.IH" walk_result_def walked_root_def)
next
  case (6 v vs i p)
  show ?case by (simp add: "6.IH" child_after_walk)
next
  case (8 k v kvs p)
  show ?case by (simp add: "8.IH" child_after_walk)
qed (simp_all add: file_visitor_other walk_result_def walked_root_def)

lemma walkObject_file_visitor:
  "walkObject v file_visitor \<lparr>map' = [], files = []\<rparr> =
     (walked_root v, scan_of (walked_files v []))"
  using doWalkObject_file_visitor(1) [of v "[]" "[]"]
  by (simp add: walkObject_def scan_of_Nil)

section \<open>The paths and the leaves\<close>

text \<open>
  \<open>makePath\<close> on some inputs. An empty key is dropped like an empty parent path.
\<close>

lemma makePath_examples:
  "makePath [] (KStr ''avatar'') = ''avatar''"
  "makePath ''user.photos'' (KNum 2) = ''user.photos.2''"
  "makePath [] (KNum 0) = ''0''"
  "makePath ''a'' (KNum 12) = ''a.12''"
  "makePath ''a'' (KStr []) = ''a''"
  "makePath [] (KStr []) = []"
  by (simp_all add: makePath_def string_of_nat.simps digit_char_def)

lemma makePath_index: "makePath p (KNum i) = spec_child_path p (string_of_nat i)"
  by (simp add: makePath_def spec_child_path_def)

lemma makePath_key: "k \<noteq> [] \<Longrightarrow> makePath p (KStr k) = spec_child_path p k"
  by (simp add: makePath_def spec_child_path_def)

lemma walked_files_spec:
  "nonempty_keys v \<Longrightarrow> walked_files v p = file_occurrences v p"
  "nonempty_keys_elements vs \<Longrightarrow>
     walked_files_elements vs i p = file_occurrences_elements vs i p"
  "nonempty_keys_properties kvs \<Longrightarrow>
     walked_files_keys kvs p = file_occurrences_properties kvs p"
  by (induction v p and vs i p and kvs p
      rule: walked_files_walked_files_elements_walked_files_keys.induct)
    (simp_all add: makePath_index makePath_key)

lemma length_walked_files:
  "length (walked_files v p) = count_files v"
  "length (walked_files_elements vs i p) = count_files_elements vs"
  "length (walked_files_keys kvs p) = count_files_properties kvs"
  by (induction v p and vs i p and kvs p
      rule: walked_files_walked_files_elements_walked_files_keys.induct) simp_all

lemma length_file_occurrences:
  "length (file_occurrences v p) = count_files v"
  "length (file_occurrences_elements vs i p) = count_files_elements vs"
  "length (file_occurrences_properties kvs p) = count_files_properties kvs"
  by (induction v p and vs i p and kvs p
      rule: file_occurrences_file_occurrences_elements_file_occurrences_properties.induct)
    simp_all

lemma null_files_fixed:
  "(null_files v = v) = (count_files v = 0)"
  "(null_files_elements vs = vs) = (count_files_elements vs = 0)"
  "(null_files_properties kvs = kvs) = (count_files_properties kvs = 0)"
  by (induction v and vs and kvs
      rule: null_files_null_files_elements_null_files_properties.induct) simp_all

lemma walked_root_fixed:
  "(walked_root v = v) = (count_files v = 0 \<or> (\<exists>f. v = JFile f))"
  by (cases v) (simp_all add: walked_root_def null_files_fixed)

section \<open>The request in closed form\<close>

lemma fold_obj_set_fresh:
  "distinct (map fst kfs) \<Longrightarrow> fst ` set kfs \<inter> fst ` set form = {} \<Longrightarrow>
   fold (\<lambda>(k, f). obj_set k (PartFile f)) kfs form =
     form @ map (\<lambda>(k, f). (k, PartFile f)) kfs"
proof (induction kfs arbitrary: form)
  case Nil
  show ?case by simp
next
  case (Cons kf kfs)
  obtain k f where kf: "kf = (k, f)" by (cases kf)
  have fresh: "k \<notin> fst ` set form" using Cons.prems(2) kf by auto
  have d: "distinct (map fst kfs)" using Cons.prems(1) by simp
  have "fst ` set kfs \<inter> fst ` set (form @ [(k, PartFile f)]) = {}"
    using Cons.prems kf by auto
  from Cons.IH [OF d this] show ?case
    by (simp add: kf obj_set_fresh [OF fresh])
qed

lemma file_parts:
  "fold (\<lambda>(k, f). obj_set k (PartFile f)) (numbered (map snd occs))
     [(''operations'', a), (''map'', b)] =
   [(''operations'', a), (''map'', b)] @ spec_file_parts occs"
proof -
  have "fst ` set (numbered (map snd occs)) \<inter> fst ` set [(''operations'', a), (''map'', b)] = {}"
    using numbered_not_operations [of "map snd occs"] numbered_not_map [of "map snd occs"]
    by auto
  from fold_obj_set_fresh [OF distinct_numbered this]
  have "fold (\<lambda>(k, f). obj_set k (PartFile f)) (numbered (map snd occs))
          [(''operations'', a), (''map'', b)] =
        [(''operations'', a), (''map'', b)]
          @ map (\<lambda>(k, f). (k, PartFile f)) (numbered (map snd occs))" .
  also have "map (\<lambda>(k, f). (k, PartFile f)) (numbered (map snd occs)) =
      numbered (map PartFile (map snd occs))"
    by (rule map_numbered)
  also have "map PartFile (map snd occs) = map (\<lambda>(p, f). PartFile f) occs"
    by (simp add: split_def)
  finally show ?thesis by (simp add: spec_file_parts_def)
qed

lemma encode_request_eq:
  "encode_request query v =
     (if walked_files v [] \<noteq> [] then
        \<lparr>req_body = BodyForm
           ([(''operations'',
               PartString (JSON_stringify (operations_value (join_query query) (walked_root v)))),
             (''map'',
               PartString (JSON_stringify (map_value (spec_file_map (walked_files v [])))))]
            @ spec_file_parts (walked_files v [])),
         req_headers = [(''Accept'', ''application/json'')],
         variables_after = walked_root v\<rparr>
      else
        \<lparr>req_body = BodyString (JSON_stringify (operations_value (join_query query) (walked_root v))),
         req_headers = [(''Accept'', ''application/json''), (''Content-Type'', ''application/json'')],
         variables_after = walked_root v\<rparr>)"
  using file_parts [of "walked_files v []"]
  by (simp add: encode_request_def walkObject_file_visitor Let_def scan_of_def
      spec_file_map_def)

text \<open>
  A tree without file leaves is walked without a trace: the request is the JSON one, and
  the tree is left as it was. (This needs nothing of the tree but that it has no file.)
\<close>

lemma encode_request_no_files:
  assumes "count_files v = 0"
  shows "encode_request query v =
     \<lparr>req_body = BodyString (JSON_stringify (operations_value (join_query query) v)),
      req_headers = [(''Accept'', ''application/json''), (''Content-Type'', ''application/json'')],
      variables_after = v\<rparr>"
proof -
  have "walked_files v [] = []"
    using assms length_walked_files(1) [of v "[]"] by simp
  moreover have "walked_root v = v"
    using assms by (simp add: walked_root_fixed)
  ultimately show ?thesis by (simp add: encode_request_eq)
qed

section \<open>JSON: reading back what was written\<close>

lemma JSON_roundtrip:
  "variables_tree v \<Longrightarrow> count_files v = 0 \<Longrightarrow>
     map_option JSON_parse (JSON_stringify v) = Some v"
  "variables_tree_elements vs \<Longrightarrow> count_files_elements vs = 0 \<Longrightarrow>
     parse_elements (stringify_elements vs) = vs"
  "variables_tree_properties kvs \<Longrightarrow> count_files_properties kvs = 0 \<Longrightarrow>
     parse_properties (stringify_properties kvs) = kvs"
  by (induction v and vs and kvs
      rule: JSON_stringify_stringify_elements_stringify_properties.induct)
    (auto split: option.splits)

section \<open>The error model in closed form\<close>

lemma collect_code_eq:
  "collect_code e err =
     err\<lparr>err_codes := map_option (\<lambda>cs. cs @ truthy_codes [e]) (err_codes err)\<rparr>"
  by (simp add: collect_code_def codes_push_def option.map_ident split: option.splits)

lemma fold_collect_code:
  "fold collect_code es err =
     err\<lparr>err_codes := map_option (\<lambda>cs. cs @ truthy_codes es) (err_codes err)\<rparr>"
proof (induction es arbitrary: err)
  case Nil
  show ?case by (simp add: option.map_ident)
next
  case (Cons e es)
  have "fold collect_code (e # es) err = fold collect_code es (collect_code e err)"
    by simp
  also have "\<dots> = (collect_code e err)
      \<lparr>err_codes := map_option (\<lambda>cs. cs @ truthy_codes es) (err_codes (collect_code e err))\<rparr>"
    by (rule Cons.IH)
  also have "\<dots> = err\<lparr>err_codes := map_option (\<lambda>cs. cs @ truthy_codes (e # es)) (err_codes err)\<rparr>"
    by (simp add: collect_code_eq option.map_comp comp_def split: option.splits)
  finally show ?case .
qed

lemma fromResponse_eq:
  "fromResponse d =
     \<lparr>err_name = GraphQlErrorName,
      err_message = (case errors d of Some (e # es) \<Rightarrow> message e | _ \<Rightarrow> ''unknown error''),
      err_codes = Some (case errors d of None \<Rightarrow> [] | Some es \<Rightarrow> truthy_codes es),
      err_errors = Some (case errors d of None \<Rightarrow> [] | Some es \<Rightarrow> es)\<rparr>"
  unfolding fromResponse_def fold_collect_code Let_def
  by (simp add: new_GraphQlError_def split: option.splits list.splits)

lemma fromResponse_name: "err_name (fromResponse d) = GraphQlErrorName"
  by (simp add: fromResponse_eq)

section \<open>The outcome of a call\<close>

lemma graphqlClient_outcome:
  "clientFactory () = Inr httpClient \<Longrightarrow>
   httpClient [] (req_body (encode_request query v)) (req_headers (encode_request query v)) = Inr d \<Longrightarrow>
   fst (graphqlClient clientFactory query v) = on_response d"
  by (simp add: graphqlClient_def Let_def)

lemma graphqlClient_variables:
  "snd (graphqlClient clientFactory query v) = walked_root v"
  by (simp add: graphqlClient_def Let_def encode_request_eq)

text \<open>
  The first end-to-end example of the specification: the query \<^verbatim>\<open>query { me }\<close>
  without variables, against a transport that returns \<^verbatim>\<open>{data: {me: {id: 1}}}\<close>,
  resolves to \<^verbatim>\<open>{me: {id: 1}}\<close>; the request is the JSON one, and
  \<^verbatim>\<open>JSON.stringify\<close> leaves the undefined variables out of the body.
\<close>

lemma graphqlClient_resolves_with_data:
  "fst (graphqlClient
         (transport_returning
            \<lparr>data = Some (JObj [(''me'', JObj [(''id'', JNum 1)])]), errors = None\<rparr>)
         (QString ''query { me }'') JUndefined)
     = Inr (JObj [(''me'', JObj [(''id'', JNum 1)])])
   \<and> encode_request (QString ''query { me }'') JUndefined =
       \<lparr>req_body = BodyString (Some (JsonObj [(''query'', JsonStr ''query { me }'')])),
        req_headers =
          [(''Accept'', ''application/json''), (''Content-Type'', ''application/json'')],
        variables_after = JUndefined\<rparr>"
  by (simp add: graphqlClient_def transport_returning_def on_response_def Let_def
      encode_request_eq walked_root_def operations_value_def join_query_def)

section \<open>The claims\<close>

subsection \<open>C1: the file map and the nulled variables\<close>

text \<open>
  C1 as the specification states it: for every variables tree with \<open>N \<ge> 1\<close> file
  leaves, at arbitrary depths, the file map has \<open>N\<close> entries, each holding the dotted
  path of one file occurrence, and the variables serialized into the \<^verbatim>\<open>operations\<close>
  part have \<^verbatim>\<open>null\<close> at every such path. The program does otherwise on two inputs.
  The variables value that is itself a file has one file leaf, at the root; the value
  serialized into the \<^verbatim>\<open>operations\<close> part is the file (the text \<^verbatim>\<open>{}\<close>), not
  \<^verbatim>\<open>null\<close>. The variables \<^verbatim>\<open>{a: {"": File}}\<close> have their file under the empty key
  of \<^verbatim>\<open>a\<close>, at the dotted path \<^verbatim>\<open>a.\<close>; the file map holds \<^verbatim>\<open>variables.a\<close>, the
  path of the object \<^verbatim>\<open>a\<close>.
\<close>

theorem C1_root_file_and_empty_key_counterexample:
  "count_files (JFile (File ''a.png'')) = 1
   \<and> JSON_stringify (null_files (JFile (File ''a.png''))) = Some JsonNull
   \<and> req_body (encode_request (QString ''q'') (JFile (File ''a.png''))) =
       BodyForm
         [(''operations'',
             PartString (Some (JsonObj [(''query'', JsonStr ''q''), (''variables'', JsonObj [])]))),
          (''map'', PartString (Some (JsonObj [(''0'', JsonArr [JsonStr ''variables.''])]))),
          (''0'', PartFile (File ''a.png''))]
   \<and> file_occurrences (JObj [(''a'', JObj [([], JFile (File ''b.png''))])]) []
       = [(''a.'', File ''b.png'')]
   \<and> req_body (encode_request (QString ''q'')
         (JObj [(''a'', JObj [([], JFile (File ''b.png''))])])) =
       BodyForm
         [(''operations'',
             PartString (Some (JsonObj
               [(''query'', JsonStr ''q''),
                (''variables'', JsonObj [(''a'', JsonObj [([], JsonNull)])])]))),
          (''map'', PartString (Some (JsonObj [(''0'', JsonArr [JsonStr ''variables.a''])]))),
          (''0'', PartFile (File ''b.png''))]"
  by (simp add: encode_request_def walkObject_def file_visitor_def Let_def
      string_of_nat_small digit_char_def operations_value_def map_value_def
      join_query_def makePath_def spec_child_path_def)

text \<open>
  C1, amended: for every variables tree whose root is an object or an array, in which no
  object has the empty string as a key, and which contains \<open>N \<ge> 1\<close> file leaves at
  arbitrary depths: the request is a multipart form; its file map has exactly \<open>N\<close>
  entries, with the keys \<^verbatim>\<open>"0"\<close>, \<^verbatim>\<open>"1"\<close>, ... in the order in which the walk meets the
  files, entry \<open>i\<close> being the one-element array of the dotted path of the \<open>i\<close>-th
  file occurrence, prefixed with \<^verbatim>\<open>variables.\<close>; part \<open>i\<close> of the form is the
  \<open>i\<close>-th file; and the variables serialized into the \<^verbatim>\<open>operations\<close> part are the
  input with \<^verbatim>\<open>null\<close> at every file leaf and nothing else changed.
\<close>

theorem C1_file_map_and_nulled_variables:
  assumes "is_container v" and "nonempty_keys v" and "count_files v = N" and "1 \<le> N"
  shows "encode_request query v =
       \<lparr>req_body = BodyForm
          ([(''operations'',
               PartString (JSON_stringify (operations_value (join_query query) (null_files v)))),
            (''map'',
               PartString (JSON_stringify (map_value (spec_file_map (file_occurrences v [])))))]
           @ spec_file_parts (file_occurrences v [])),
        req_headers = [(''Accept'', ''application/json'')],
        variables_after = null_files v\<rparr>
     \<and> length (spec_file_map (file_occurrences v [])) = N
     \<and> map fst (spec_file_map (file_occurrences v [])) = map string_of_nat [0..<N]"
proof -
  have occs: "walked_files v [] = file_occurrences v []"
    using assms(2) by (rule walked_files_spec(1))
  have len: "length (file_occurrences v []) = N"
    using assms(3) by (simp add: length_file_occurrences)
  then have ne: "file_occurrences v [] \<noteq> []"
    using assms(4) by auto
  have root: "walked_root v = null_files v"
    using assms(1) by (cases v) (simp_all add: walked_root_def)
  have "map fst (spec_file_map (file_occurrences v [])) = map string_of_nat [0..<N]"
    using len by (simp add: spec_file_map_def numbered_keys)
  then show ?thesis
    using occs ne root len by (simp add: encode_request_eq spec_file_map_def)
qed

text \<open>
  The two paths of the specification in one tree: a file under the top-level key
  \<^verbatim>\<open>avatar\<close> and a file at \<^verbatim>\<open>user.photos[2]\<close>.
\<close>

theorem C1_file_map_and_nulled_variables_witness:
  "encode_request (QString ''mutation'')
     (JObj [(''avatar'', JFile (File ''a.png'')),
            (''user'', JObj [(''photos'', JArr [JNull, JStr ''x'', JFile (File ''b.png'')])])]) =
     \<lparr>req_body = BodyForm
        [(''operations'', PartString (Some (JsonObj
            [(''query'', JsonStr ''mutation''),
             (''variables'', JsonObj
                [(''avatar'', JsonNull),
                 (''user'', JsonObj
                    [(''photos'', JsonArr [JsonNull, JsonStr ''x'', JsonNull])])])]))),
         (''map'', PartString (Some (JsonObj
            [(''0'', JsonArr [JsonStr ''variables.avatar'']),
             (''1'', JsonArr [JsonStr ''variables.user.photos.2''])]))),
         (''0'', PartFile (File ''a.png'')),
         (''1'', PartFile (File ''b.png''))],
      req_headers = [(''Accept'', ''application/json'')],
      variables_after =
        JObj [(''avatar'', JNull),
              (''user'', JObj [(''photos'', JArr [JNull, JStr ''x'', JNull])])]\<rparr>"
  using C1_file_map_and_nulled_variables
    [of "JObj [(''avatar'', JFile (File ''a.png'')),
               (''user'', JObj [(''photos'', JArr [JNull, JStr ''x'', JFile (File ''b.png'')])])]"
        2 "QString ''mutation''"]
  by (simp add: spec_file_map_def spec_file_parts_def numbered_def string_of_nat_small
      digit_char_def operations_value_def map_value_def join_query_def spec_child_path_def)

subsection \<open>C2: when the call rejects with the error of fromResponse\<close>

text \<open>
  C2 as the specification states it: the call rejects with the error built by
  \<^verbatim>\<open>fromResponse\<close> exactly when the errors array is present and not empty; an
  envelope whose errors array is present but empty never takes this path. The program
  does otherwise: the envelope \<^verbatim>\<open>{data: 1, errors: []}\<close> is rejected with the error
  \<^verbatim>\<open>fromResponse\<close> builds from it, whose message is \<^verbatim>\<open>unknown error\<close>.
\<close>

theorem C2_empty_errors_counterexample:
  "errors \<lparr>data = Some (JNum 1), errors = Some []\<rparr> = Some []
   \<and> fst (graphqlClient (transport_returning \<lparr>data = Some (JNum 1), errors = Some []\<rparr>)
         (QString ''query { me }'') JUndefined)
       = Inl (fromResponse \<lparr>data = Some (JNum 1), errors = Some []\<rparr>)
   \<and> fromResponse \<lparr>data = Some (JNum 1), errors = Some []\<rparr>
       = \<lparr>err_name = ''GraphQlError'', err_message = ''unknown error'',
          err_codes = Some [], err_errors = Some []\<rparr>"
  by (simp add: graphqlClient_def transport_returning_def on_response_def Let_def
      fromResponse_eq GraphQlErrorName_def)

text \<open>
  C2, amended: when the transport yields a decoded envelope, the call rejects with the
  error built by \<^verbatim>\<open>fromResponse\<close> exactly when the envelope has an errors array,
  empty or not. An envelope without an errors array never takes this path; an envelope
  whose errors array is empty does, and the error then has the message
  \<^verbatim>\<open>unknown error\<close>.
\<close>

theorem C2_rejects_iff_errors_present:
  assumes "clientFactory () = Inr httpClient"
    and "httpClient [] (req_body (encode_request query v)) (req_headers (encode_request query v))
           = Inr d"
  shows "(fst (graphqlClient clientFactory query v) = Inl (fromResponse d)) = (errors d \<noteq> None)
    \<and> (errors d = Some [] \<longrightarrow>
         fst (graphqlClient clientFactory query v) = Inl (new_GraphQlError ''unknown error''))"
proof -
  have r: "fst (graphqlClient clientFactory query v) = on_response d"
    using assms by (rule graphqlClient_outcome)
  have "new_Error ''no data returned'' \<noteq> fromResponse d"
  proof
    assume "new_Error ''no data returned'' = fromResponse d"
    then have "err_name (new_Error ''no data returned'') = err_name (fromResponse d)"
      by simp
    then show False
      by (simp add: new_Error_def fromResponse_name GraphQlErrorName_def)
  qed
  then have "(on_response d = Inl (fromResponse d)) = (errors d \<noteq> None)"
    by (auto simp: on_response_def split: option.splits)
  moreover have "errors d = Some [] \<longrightarrow> on_response d = Inl (new_GraphQlError ''unknown error'')"
    by (simp add: on_response_def fromResponse_def new_GraphQlError_def)
  ultimately show ?thesis using r by simp
qed

text \<open>
  Two envelopes. The end-to-end example of the specification,
  \<^verbatim>\<open>{errors: [{message: "unauthorized", extensions: {code: 401}}]}\<close>, rejects the call
  with an error whose codes are \<^verbatim>\<open>[401]\<close>; the envelope \<^verbatim>\<open>{data: 1, errors: []}\<close>
  rejects it with the error \<^verbatim>\<open>unknown error\<close>.
\<close>

theorem C2_rejects_iff_errors_present_witness:
  "fst (graphqlClient
         (transport_returning
            \<lparr>data = (None :: jsval option),
             errors = Some [\<lparr>message = ''unauthorized'', extensions = Some \<lparr>code = 401\<rparr>,
                             error_path = None\<rparr>]\<rparr>)
         (QString ''query { me }'') JUndefined)
     = Inl \<lparr>err_name = ''GraphQlError'', err_message = ''unauthorized'',
            err_codes = Some [401],
            err_errors = Some [\<lparr>message = ''unauthorized'', extensions = Some \<lparr>code = 401\<rparr>,
                                error_path = None\<rparr>]\<rparr>
   \<and> fst (graphqlClient (transport_returning \<lparr>data = Some (JNum 1), errors = Some []\<rparr>)
         (QString ''query { me }'') JUndefined)
     = Inl \<lparr>err_name = ''GraphQlError'', err_message = ''unknown error'',
            err_codes = Some [], err_errors = Some []\<rparr>"
  using C2_rejects_iff_errors_present
    [of "transport_returning
           \<lparr>data = (None :: jsval option),
            errors = Some [\<lparr>message = ''unauthorized'', extensions = Some \<lparr>code = 401\<rparr>,
                            error_path = None\<rparr>]\<rparr>"
        "\<lambda>p b h. Inr
           \<lparr>data = (None :: jsval option),
            errors = Some [\<lparr>message = ''unauthorized'', extensions = Some \<lparr>code = 401\<rparr>,
                            error_path = None\<rparr>]\<rparr>"
        "QString ''query { me }''" JUndefined
        "\<lparr>data = (None :: jsval option),
          errors = Some [\<lparr>message = ''unauthorized'', extensions = Some \<lparr>code = 401\<rparr>,
                          error_path = None\<rparr>]\<rparr>"]
    C2_rejects_iff_errors_present
    [of "transport_returning \<lparr>data = Some (JNum 1), errors = Some []\<rparr>"
        "\<lambda>p b h. Inr \<lparr>data = Some (JNum 1), errors = Some []\<rparr>"
        "QString ''query { me }''" JUndefined
        "\<lparr>data = Some (JNum 1), errors = Some []\<rparr>"]
  by (simp add: transport_returning_def fromResponse_eq GraphQlErrorName_def
      new_GraphQlError_def)

subsection \<open>C3: the caller's variables after the call\<close>

text \<open>
  C3 as the specification states it: the caller's variables object is unchanged after
  the call. The program does otherwise: it walks the object it was given and writes
  \<^verbatim>\<open>null\<close> into it. After a call with the variables \<^verbatim>\<open>{avatar: File}\<close> the caller's
  object is \<^verbatim>\<open>{avatar: null}\<close>.
\<close>

theorem C3_caller_variables_counterexample:
  "snd (graphqlClient (transport_returning \<lparr>data = Some (JBool True), errors = None\<rparr>)
         (QString ''mutation ($avatar: Upload) { upload(file: $avatar) }'')
         (JObj [(''avatar'', JFile (File ''a.png''))]))
     = JObj [(''avatar'', JNull)]"
  by (simp add: graphqlClient_def encode_request_def walkObject_def file_visitor_def Let_def
      string_of_nat_small digit_char_def makePath_def)

text \<open>
  C3, amended: the file pass runs on the caller's own object, nothing is copied. After
  every call the caller's variables object is the original with \<^verbatim>\<open>null\<close> in the place
  of every file that an object or an array of it held (a variables value that is itself
  a file is left as it is). So the caller's object is unchanged exactly when the tree has
  no file leaf, or is itself a file.
\<close>

theorem C3_caller_variables_after_call:
  "snd (graphqlClient clientFactory query v) = (case v of JFile f \<Rightarrow> v | _ \<Rightarrow> null_files v)
   \<and> ((snd (graphqlClient clientFactory query v) = v)
        = (count_files v = 0 \<or> (\<exists>f. v = JFile f)))"
  by (simp add: graphqlClient_variables walked_root_fixed)
    (cases v; simp add: walked_root_def)

subsection \<open>C4: the walker on an undefined root\<close>

text \<open>
  C4 as the specification states it: calling \<^verbatim>\<open>walkObject\<close> with an undefined root is
  a no-op, the callback is never invoked. The program does otherwise: on the recording
  callback, started with an empty record, the walk of \<^verbatim>\<open>undefined\<close> ends with one
  recorded call, on the value \<^verbatim>\<open>undefined\<close> and the empty path.
\<close>

theorem C4_undefined_root_counterexample:
  "walkObject JUndefined logging_visitor [] = (JUndefined, [(JUndefined, [])])"
  by (simp add: walkObject_def logging_visitor_def)

text \<open>
  C4, amended: \<^verbatim>\<open>undefined\<close> is a leaf like any other value that is neither an array
  nor an object. Calling \<^verbatim>\<open>walkObject\<close> with an undefined root invokes the callback
  exactly once, on the value \<^verbatim>\<open>undefined\<close> and the empty path; the state after the walk
  is the state this one call leaves, and the root is still \<^verbatim>\<open>undefined\<close>.
\<close>

theorem C4_undefined_root_is_a_leaf:
  "walkObject JUndefined fn s = (JUndefined, snd (fn JUndefined [] s))"
  by (simp add: walkObject_def split: prod.splits)

subsection \<open>C5: variables without files\<close>

text \<open>
  C5: for every variables tree that contains no file leaf, the client encodes the
  request as JSON, with the header \<^verbatim>\<open>Content-Type: application/json\<close> (beside
  \<^verbatim>\<open>Accept\<close>), and the body is a JSON text that \<^verbatim>\<open>JSON.parse\<close> reads back as the
  object \<^verbatim>\<open>{query, variables}\<close>, the variables unchanged.
\<close>

theorem C5_json_encoding:
  assumes "variables_tree v" and "count_files v = 0"
  shows "encode_request query v =
       \<lparr>req_body = BodyString (JSON_stringify (operations_value (join_query query) v)),
        req_headers =
          [(''Accept'', ''application/json''), (''Content-Type'', ''application/json'')],
        variables_after = v\<rparr>
     \<and> map_option JSON_parse (JSON_stringify (operations_value (join_query query) v))
         = Some (operations_value (join_query query) v)"
proof -
  have "variables_tree (operations_value (join_query query) v)"
    and "count_files (operations_value (join_query query) v) = 0"
    using assms by (simp_all add: operations_value_def)
  then have "map_option JSON_parse (JSON_stringify (operations_value (join_query query) v))
      = Some (operations_value (join_query query) v)"
    by (rule JSON_roundtrip(1))
  then show ?thesis using encode_request_no_files [OF assms(2)] by simp
qed

theorem C5_json_encoding_witness:
  "encode_request (QArray [''query ($id: Int, $tags: [String]) {'', ''  item(id: $id) { name }'', ''}''])
     (JObj [(''id'', JNum 7), (''tags'', JArr [JStr ''a'', JNull, JBool True])]) =
     \<lparr>req_body = BodyString (Some (JsonObj
        [(''query'', JsonStr (''query ($id: Int, $tags: [String]) {'' @ [CHR 0x0A]
            @ ''  item(id: $id) { name }'' @ [CHR 0x0A] @ ''}'')),
         (''variables'',
            JsonObj [(''id'', JsonNum 7),
                     (''tags'', JsonArr [JsonStr ''a'', JsonNull, JsonBool True])])])),
      req_headers =
        [(''Accept'', ''application/json''), (''Content-Type'', ''application/json'')],
      variables_after = JObj [(''id'', JNum 7), (''tags'', JArr [JStr ''a'', JNull, JBool True])]\<rparr>
   \<and> JSON_parse (JsonObj
        [(''query'', JsonStr (''query ($id: Int, $tags: [String]) {'' @ [CHR 0x0A]
            @ ''  item(id: $id) { name }'' @ [CHR 0x0A] @ ''}'')),
         (''variables'',
            JsonObj [(''id'', JsonNum 7),
                     (''tags'', JsonArr [JsonStr ''a'', JsonNull, JsonBool True])])])
     = JObj [(''query'', JStr (''query ($id: Int, $tags: [String]) {'' @ [CHR 0x0A]
            @ ''  item(id: $id) { name }'' @ [CHR 0x0A] @ ''}'')),
           (''variables'',
              JObj [(''id'', JNum 7), (''tags'', JArr [JStr ''a'', JNull, JBool True])])]"
  using C5_json_encoding
    [of "JObj [(''id'', JNum 7), (''tags'', JArr [JStr ''a'', JNull, JBool True])]"
        "QArray [''query ($id: Int, $tags: [String]) {'', ''  item(id: $id) { name }'', ''}'']"]
  by (simp add: operations_value_def join_query_def)

subsection \<open>C6: fromResponse\<close>

text \<open>
  C6: for every envelope, the error \<^verbatim>\<open>fromResponse\<close> returns has the message of the
  first error object when the errors array is present and not empty, and
  \<^verbatim>\<open>unknown error\<close> otherwise; its \<^verbatim>\<open>errors\<close> field is the envelope's errors list
  (empty when absent); its \<^verbatim>\<open>codes\<close> are exactly the truthy \<^verbatim>\<open>extensions.code\<close>
  values, in the order of the errors, duplicates kept.
\<close>

theorem C6_fromResponse:
  "err_message (fromResponse d) =
     (case errors d of Some (e # es) \<Rightarrow> message e | _ \<Rightarrow> ''unknown error'')
   \<and> err_errors (fromResponse d) = Some (case errors d of None \<Rightarrow> [] | Some es \<Rightarrow> es)
   \<and> err_codes (fromResponse d) =
       Some (case errors d of None \<Rightarrow> [] | Some es \<Rightarrow> truthy_codes es)"
  by (simp add: fromResponse_eq)

text \<open>The two examples of the specification, and one with a duplicate and a zero code.\<close>

lemma fromResponse_empty_errors:
  "fromResponse \<lparr>data = d, errors = Some []\<rparr> =
     \<lparr>err_name = ''GraphQlError'', err_message = ''unknown error'',
      err_codes = Some [], err_errors = Some []\<rparr>"
  by (simp add: fromResponse_eq GraphQlErrorName_def)

lemma fromResponse_bad_42:
  "fromResponse
     \<lparr>data = d,
      errors = Some [\<lparr>message = ''bad'', extensions = Some \<lparr>code = 42\<rparr>, error_path = None\<rparr>]\<rparr> =
     \<lparr>err_name = ''GraphQlError'', err_message = ''bad'', err_codes = Some [42],
      err_errors = Some [\<lparr>message = ''bad'', extensions = Some \<lparr>code = 42\<rparr>, error_path = None\<rparr>]\<rparr>"
  by (simp add: fromResponse_eq GraphQlErrorName_def)

lemma fromResponse_codes_kept_in_order:
  "err_codes (fromResponse
     \<lparr>data = d,
      errors = Some
        [\<lparr>message = ''a'', extensions = Some \<lparr>code = 7\<rparr>, error_path = None\<rparr>,
         \<lparr>message = ''b'', extensions = None, error_path = None\<rparr>,
         \<lparr>message = ''c'', extensions = Some \<lparr>code = 0\<rparr>, error_path = None\<rparr>,
         \<lparr>message = ''d'', extensions = Some \<lparr>code = 3\<rparr>, error_path = None\<rparr>,
         \<lparr>message = ''e'', extensions = Some \<lparr>code = 7\<rparr>, error_path = None\<rparr>]\<rparr>)
   = Some [7, 3, 7]"
  by (simp add: fromResponse_eq)

subsection \<open>C7: fromError after fromResponse\<close>

text \<open>
  C7: for every envelope, \<^verbatim>\<open>fromError\<close> applied to the error that \<^verbatim>\<open>fromResponse\<close>
  built returns that very error, not \<^verbatim>\<open>null\<close>. (\<^verbatim>\<open>fromError\<close> returns its argument,
  so the instance is the same.)
\<close>

theorem C7_fromError_fromResponse:
  "fromError (fromResponse d) = Some (fromResponse d)"
  by (simp add: fromError_def fromResponse_name)

subsection \<open>C8: the envelope without data\<close>

text \<open>
  C8 as the specification states it: for every decoded envelope in which data is absent
  and there are no errors, the call rejects with the plain error
  \<^verbatim>\<open>no data returned\<close>, which \<^verbatim>\<open>fromError\<close> does not classify. The program does
  otherwise on the envelope \<^verbatim>\<open>{errors: []}\<close>, which has no data and no error in its
  errors array: the call rejects with a \<^verbatim>\<open>GraphQlError\<close>, and \<^verbatim>\<open>fromError\<close>
  classifies it.
\<close>

theorem C8_empty_errors_counterexample:
  "fst (graphqlClient (transport_returning \<lparr>data = (None :: jsval option), errors = Some []\<rparr>)
         (QString ''query { me }'') JUndefined)
     = Inl \<lparr>err_name = ''GraphQlError'', err_message = ''unknown error'',
            err_codes = Some [], err_errors = Some []\<rparr>
   \<and> fromError \<lparr>err_name = ''GraphQlError'', err_message = ''unknown error'',
                 err_codes = Some [], err_errors = Some []\<rparr>
       = Some \<lparr>err_name = ''GraphQlError'', err_message = ''unknown error'',
                err_codes = Some [], err_errors = Some []\<rparr>"
  by (simp add: graphqlClient_def transport_returning_def on_response_def Let_def
      fromResponse_eq fromError_def GraphQlErrorName_def)

text \<open>
  C8, amended: for every decoded envelope in which data is absent and the errors array
  is absent, the call rejects with the plain error whose message is
  \<^verbatim>\<open>no data returned\<close>; \<^verbatim>\<open>fromError\<close> returns \<^verbatim>\<open>null\<close> for this error, and
  \<^verbatim>\<open>hasErrorCode\<close> returns false on it for every code.
\<close>

theorem C8_no_data_returned:
  assumes "clientFactory () = Inr httpClient"
    and "httpClient [] (req_body (encode_request query v)) (req_headers (encode_request query v))
           = Inr d"
    and "data d = None"
    and "errors d = None"
  shows "fst (graphqlClient clientFactory query v) = Inl (new_Error ''no data returned'')
    \<and> err_message (new_Error ''no data returned'') = ''no data returned''
    \<and> fromError (new_Error ''no data returned'') = None
    \<and> hasErrorCode (new_Error ''no data returned'') c = Some False"
proof -
  have "fst (graphqlClient clientFactory query v) = on_response d"
    using assms(1,2) by (rule graphqlClient_outcome)
  then show ?thesis
    using assms(3,4)
    by (simp add: on_response_def hasErrorCode_def fromError_def new_Error_def
        GraphQlErrorName_def)
qed

theorem C8_no_data_returned_witness:
  "fst (graphqlClient (transport_returning \<lparr>data = (None :: jsval option), errors = None\<rparr>)
         (QString ''query { me }'') JUndefined)
     = Inl \<lparr>err_name = ''Error'', err_message = ''no data returned'',
            err_codes = None, err_errors = None\<rparr>
   \<and> hasErrorCode (new_Error ''no data returned'') 42 = Some False"
  using C8_no_data_returned
    [of "transport_returning \<lparr>data = (None :: jsval option), errors = None\<rparr>"
        "\<lambda>p b h. Inr \<lparr>data = (None :: jsval option), errors = None\<rparr>"
        "QString ''query { me }''" JUndefined
        "\<lparr>data = (None :: jsval option), errors = None\<rparr>" 42]
  by (simp add: transport_returning_def new_Error_def)

subsection \<open>C9: classification reads the name only\<close>

text \<open>
  C9: \<^verbatim>\<open>fromError\<close> classifies by the \<^verbatim>\<open>name\<close> field alone. Every error value whose
  name is \<^verbatim>\<open>GraphQlError\<close> is returned as it is, whatever its other fields are, also
  when it has no \<^verbatim>\<open>codes\<close> and no \<^verbatim>\<open>errors\<close> field; every error value with another
  name gives \<^verbatim>\<open>null\<close>.
\<close>

theorem C9_fromError_by_name:
  "(err_name e = ''GraphQlError'' \<longrightarrow> fromError e = Some e)
   \<and> (err_name e \<noteq> ''GraphQlError'' \<longrightarrow> fromError e = None)"
  by (simp add: fromError_def GraphQlErrorName_def)

text \<open>
  A plain \<^verbatim>\<open>Error\<close> renamed to \<^verbatim>\<open>GraphQlError\<close> has no \<^verbatim>\<open>codes\<close> field and is
  classified as a \<^verbatim>\<open>GraphQlError\<close> all the same; a \<^verbatim>\<open>GraphQlError\<close> renamed to
  \<^verbatim>\<open>Error\<close> has the fields and is not.
\<close>

theorem C9_fromError_by_name_witness:
  "err_codes (new_Error ''boom''\<lparr>err_name := ''GraphQlError''\<rparr>) = None
   \<and> fromError (new_Error ''boom''\<lparr>err_name := ''GraphQlError''\<rparr>)
       = Some (new_Error ''boom''\<lparr>err_name := ''GraphQlError''\<rparr>)
   \<and> err_codes (new_GraphQlError ''boom''\<lparr>err_name := ''Error''\<rparr>) = Some []
   \<and> fromError (new_GraphQlError ''boom''\<lparr>err_name := ''Error''\<rparr>) = None"
  using C9_fromError_by_name [of "new_Error ''boom''\<lparr>err_name := ''GraphQlError''\<rparr>"]
    C9_fromError_by_name [of "new_GraphQlError ''boom''\<lparr>err_name := ''Error''\<rparr>"]
  by (simp add: new_Error_def new_GraphQlError_def)

text \<open>On such a value \<^verbatim>\<open>hasErrorCode\<close> reads \<^verbatim>\<open>includes\<close> of \<^verbatim>\<open>undefined\<close> and throws.\<close>

lemma hasErrorCode_without_codes:
  "hasErrorCode (new_Error ''boom''\<lparr>err_name := ''GraphQlError''\<rparr>) c = None"
  by (simp add: hasErrorCode_def fromError_def new_Error_def GraphQlErrorName_def)

subsection \<open>C10: the variables value that is itself a file\<close>

text \<open>
  C10: when the variables value is a single file, the callback is invoked once, on the
  file and the empty path; the request is a multipart form whose file map has the one
  entry \<^verbatim>\<open>{"0": ["variables."]}\<close>, the path ending in a dot; and the value serialized
  into the \<^verbatim>\<open>operations\<close> part is still the file, not \<^verbatim>\<open>null\<close> (the text
  \<^verbatim>\<open>JSON.stringify\<close> writes for a file is \<^verbatim>\<open>{}\<close>).
\<close>

theorem C10_root_file:
  "walkObject (JFile f) fn s = (JFile f, snd (fn (JFile f) [] s))
   \<and> encode_request query (JFile f) =
       \<lparr>req_body = BodyForm
          [(''operations'',
              PartString (JSON_stringify (operations_value (join_query query) (JFile f)))),
           (''map'', PartString (JSON_stringify (map_value [(''0'', [''variables.''])]))),
           (''0'', PartFile f)],
        req_headers = [(''Accept'', ''application/json'')],
        variables_after = JFile f\<rparr>
   \<and> JSON_stringify (operations_value (join_query query) (JFile f)) =
       Some (JsonObj [(''query'', JsonStr (join_query query)), (''variables'', JsonObj [])])
   \<and> JSON_stringify (map_value [(''0'', [''variables.''])]) =
       Some (JsonObj [(''0'', JsonArr [JsonStr ''variables.''])])"
  by (simp add: walkObject_def encode_request_eq walked_root_def spec_file_map_def
      spec_file_parts_def numbered_def string_of_nat_small digit_char_def
      operations_value_def map_value_def split: prod.splits)

end
